theory Spec2Isabelle
  imports Main
begin

section \<open>JavaScript values used by the streaming client\<close>

text \<open>
  Strings are lists of code units. An optional string argument (\<open>market?: string\<close>) is a
  \<open>string option\<close>; JavaScript treats both \<open>undefined\<close> and the empty string as false in
  a condition.
\<close>

definition truthy :: "string option \<Rightarrow> bool" where
  "truthy m = (case m of None \<Rightarrow> False | Some x \<Rightarrow> x \<noteq> [])"

text \<open>\<open>String.prototype.split\<close> with a one-character separator: every occurrence of the
  separator cuts, and the result always has at least one part.\<close>

fun split_on :: "char \<Rightarrow> string \<Rightarrow> string list" where
  "split_on c [] = [[]]"
| "split_on c (x # xs) =
     (if x = c then [] # split_on c xs
      else (case split_on c xs of
              [] \<Rightarrow> [[x]]
            | p # ps \<Rightarrow> (x # p) # ps))"

text \<open>Array destructuring \<open>const [a, b] = parts\<close>: a missing element is \<open>undefined\<close>.\<close>

definition nth_opt :: "'a list \<Rightarrow> nat \<Rightarrow> 'a option" where
  "nth_opt xs i = (if i < length xs then Some (xs ! i) else None)"

section \<open>The subscription registry: a Map from key to a Set of handlers\<close>

text \<open>
  A handler is a function reference; only its identity matters to the registry, so a
  handler is a number. A JavaScript \<open>Set\<close> keeps insertion order and ignores a second
  \<open>add\<close> of the same element; a \<open>Map\<close> keeps the insertion order of its keys, and
  \<open>set\<close> on a present key replaces the value in place.
\<close>

type_synonym handler = nat

type_synonym registry = "(string \<times> handler list) list"

definition set_add :: "handler \<Rightarrow> handler list \<Rightarrow> handler list" where
  "set_add h hs = (if h \<in> set hs then hs else hs @ [h])"

definition set_delete :: "handler \<Rightarrow> handler list \<Rightarrow> handler list" where
  "set_delete h hs = removeAll h hs"

definition map_has :: "registry \<Rightarrow> string \<Rightarrow> bool" where
  "map_has m k = (k \<in> fst ` set m)"

definition map_get :: "registry \<Rightarrow> string \<Rightarrow> handler list option" where
  "map_get m k = map_of m k"

fun map_set :: "string \<Rightarrow> handler list \<Rightarrow> registry \<Rightarrow> registry" where
  "map_set k v [] = [(k, v)]"
| "map_set k v (p # ps) = (if fst p = k then (k, v) # ps else p # map_set k v ps)"

definition map_delete :: "string \<Rightarrow> registry \<Rightarrow> registry" where
  "map_delete k m = filter (\<lambda>p. fst p \<noteq> k) m"

section \<open>Subscription keys and wire messages\<close>

text \<open>\<open>getSubscriptionKey\<close>: \<open>market ? `${channel}:${market}` : channel\<close>.\<close>

definition getSubscriptionKey :: "string \<Rightarrow> string option \<Rightarrow> string" where
  "getSubscriptionKey channel market =
     (case market of
        None \<Rightarrow> channel
      | Some m \<Rightarrow> if m \<noteq> [] then channel @ '':'' @ m else channel)"

text \<open>The control messages the client writes to the transport. The \<open>market\<close> property
  is set only when the argument is truthy.\<close>

datatype wire_msg =
    AuthMsg nat string string
  | SubscribeMsg string "string option"
  | UnsubscribeMsg string "string option"

definition subscribe_msg :: "string \<Rightarrow> string option \<Rightarrow> wire_msg" where
  "subscribe_msg channel market = SubscribeMsg channel (if truthy market then market else None)"

definition unsubscribe_msg :: "string \<Rightarrow> string option \<Rightarrow> wire_msg" where
  "unsubscribe_msg channel market = UnsubscribeMsg channel (if truthy market then market else None)"

text \<open>What \<open>resubscribeAll\<close> sends for one stored key:
  \<open>const [channel, market] = key.split(':'); this.sendSubscribe(channel, market)\<close>.\<close>

definition resubscribe_msg :: "string \<Rightarrow> wire_msg" where
  "resubscribe_msg key =
     (let parts = split_on (CHR '':'') key
      in subscribe_msg (case nth_opt parts 0 of Some c \<Rightarrow> c | None \<Rightarrow> []) (nth_opt parts 1))"

section \<open>The WebSocket client\<close>

datatype ready_state = CONNECTING | OPEN | CLOSING | CLOSED

datatype timer_state = Pending | Fired | Cleared

text \<open>The \<open>data\<close> of an inbound frame is opaque to the client except for two optional
  properties it reads: \<open>data.market\<close> (routing) and \<open>data.message\<close> (error frames).\<close>

record ws_data =
  d_market :: "string option"
  d_message :: "string option"
  d_body :: nat

record ws_message =
  m_channel :: string
  m_type :: string
  m_data :: ws_data
  m_sequence :: "int option"

datatype event =
    Ev_connected
  | Ev_disconnected nat string
  | Ev_error string
  | Ev_subscribed ws_message
  | Ev_unsubscribed ws_message
  | Ev_message ws_message

text \<open>\<open>HmacAuth\<close>: the API key and the signing function (HMAC-SHA256 under the secret,
  computed by the platform's crypto library).\<close>

record hmac_auth =
  apiKey :: string
  sign :: "string \<Rightarrow> string"

text \<open>
  The fields of \<open>WebSocketClient\<close>, followed by what surrounds it: every transport the
  client has created with its ready state (\<open>ws\<close> is the index of the current one), every
  timeout it has scheduled (\<open>reconnectTimeout\<close> is the index of the one it remembers),
  the number of listeners attached for the \<open>error\<close> event, and the observable output:
  messages written per transport, events emitted, handler calls, pings.
  The \<open>debug\<close> flag only guards console output and is left out. \<open>WS_URLS\<close> has an entry
  for each member of \<open>Environment\<close>, so the invalid-environment branch of \<open>connect\<close> is
  not reachable from a typed configuration and is left out as well.
\<close>

record client =
  ws :: "nat option"
  cfg_auth :: "hmac_auth option"
  cfg_reconnect :: bool
  cfg_reconnectDelay :: nat
  cfg_maxReconnectAttempts :: nat
  subscriptions :: registry
  isConnected :: bool
  reconnectAttempts :: nat
  heartbeatInterval :: bool
  sequenceNumber :: int
  reconnectTimeout :: "nat option"
  sockets :: "ready_state list"
  timers :: "(nat \<times> timer_state) list"
  error_listeners :: nat
  wire :: "(nat \<times> wire_msg) list"
  emitted :: "event list"
  calls :: "(handler \<times> ws_data) list"
  pings :: "nat list"

definition readyState :: "client \<Rightarrow> nat \<Rightarrow> ready_state" where
  "readyState s i = (if i < length (sockets s) then sockets s ! i else CLOSED)"

text \<open>\<open>send\<close>: writes only when there is a current transport and it is open.\<close>

definition send :: "wire_msg \<Rightarrow> client \<Rightarrow> client" where
  "send m s =
     (case ws s of
        None \<Rightarrow> s
      | Some i \<Rightarrow> if readyState s i = OPEN then s\<lparr>wire := wire s @ [(i, m)]\<rparr> else s)"

definition sendSubscribe :: "string \<Rightarrow> string option \<Rightarrow> client \<Rightarrow> client" where
  "sendSubscribe channel market s = send (subscribe_msg channel market) s"

definition sendUnsubscribe :: "string \<Rightarrow> string option \<Rightarrow> client \<Rightarrow> client" where
  "sendUnsubscribe channel market s = send (unsubscribe_msg channel market) s"

definition subscribe :: "string \<Rightarrow> handler \<Rightarrow> string option \<Rightarrow> client \<Rightarrow> client" where
  "subscribe channel h market s =
     (let key = getSubscriptionKey channel market;
          subs1 = (if \<not> map_has (subscriptions s) key
                   then map_set key [] (subscriptions s) else subscriptions s);
          subs2 = (case map_get subs1 key of
                     Some hs \<Rightarrow> map_set key (set_add h hs) subs1
                   | None \<Rightarrow> subs1);
          s1 = s\<lparr>subscriptions := subs2\<rparr>
      in if isConnected s1 then sendSubscribe channel market s1 else s1)"

definition unsubscribe :: "string \<Rightarrow> handler option \<Rightarrow> string option \<Rightarrow> client \<Rightarrow> client" where
  "unsubscribe channel h market s =
     (let key = getSubscriptionKey channel market;
          subs1 = (case h of
                     None \<Rightarrow> map_delete key (subscriptions s)
                   | Some h' \<Rightarrow>
                       (case map_get (subscriptions s) key of
                          None \<Rightarrow> subscriptions s
                        | Some hs \<Rightarrow>
                            (let hs' = set_delete h' hs;
                                 m1 = map_set key hs' (subscriptions s)
                             in if length hs' = 0 then map_delete key m1 else m1)));
          s1 = s\<lparr>subscriptions := subs1\<rparr>
      in if isConnected s1 \<and> \<not> map_has subs1 key then sendUnsubscribe channel market s1 else s1)"

subsection \<open>Events, heartbeat, authentication, replay\<close>

text \<open>
  The client extends Node's \<open>EventEmitter\<close>. \<open>emit\<close> calls the listeners attached for
  the event, and listeners are taken not to raise. The \<open>error\<close> event is special in
  \<open>EventEmitter\<close>: emitted while no listener is attached for it, the error is thrown from
  the \<open>emit\<close> call instead. \<open>emit_error\<close> returns the state and the thrown value, if any.
\<close>

definition emit :: "event \<Rightarrow> client \<Rightarrow> client" where
  "emit e s = s\<lparr>emitted := emitted s @ [e]\<rparr>"

definition emit_error :: "string \<Rightarrow> client \<Rightarrow> client \<times> string option" where
  "emit_error e s =
     (if error_listeners s = 0 then (s, Some e)
      else (s\<lparr>emitted := emitted s @ [Ev_error e]\<rparr>, None))"

definition stopHeartbeat :: "client \<Rightarrow> client" where
  "stopHeartbeat s = (if heartbeatInterval s then s\<lparr>heartbeatInterval := False\<rparr> else s)"

definition startHeartbeat :: "client \<Rightarrow> client" where
  "startHeartbeat s = (stopHeartbeat s)\<lparr>heartbeatInterval := True\<rparr>"

text \<open>The interval callback: \<open>if (this.ws && this.ws.readyState === OPEN) this.ws.ping()\<close>.\<close>

definition heartbeat_tick :: "client \<Rightarrow> client" where
  "heartbeat_tick s =
     (case ws s of
        None \<Rightarrow> s
      | Some i \<Rightarrow> if readyState s i = OPEN then s\<lparr>pings := pings s @ [i]\<rparr> else s)"

text \<open>Decimal rendering of a number inside a template string.\<close>

definition digit_char :: "nat \<Rightarrow> char" where
  "digit_char d = ''0123456789'' ! d"

function show_nat :: "nat \<Rightarrow> string" where
  "show_nat n =
     (if n < 10 then [digit_char n]
      else show_nat (n div 10) @ [digit_char (n mod 10)])"
  by pat_completeness auto
termination
  by (relation "measure (\<lambda>n. n)") auto

text \<open>\<open>authenticate\<close>, with \<open>Date.now()\<close> passed in as \<open>now\<close>.\<close>

definition authenticate :: "nat \<Rightarrow> client \<Rightarrow> client" where
  "authenticate now s =
     (case cfg_auth s of
        None \<Rightarrow> s
      | Some a \<Rightarrow> send (AuthMsg now (apiKey a) (sign a (show_nat now @ ''WS_AUTH''))) s)"

definition resubscribeAll :: "client \<Rightarrow> client" where
  "resubscribeAll s = fold (\<lambda>key. send (resubscribe_msg key)) (map fst (subscriptions s)) s"

subsection \<open>connect, the listeners it attaches, disconnect\<close>

text \<open>\<open>connect\<close> creates a new transport, stores it in \<open>this.ws\<close> and attaches the
  listeners below to it. The previous transport, if any, is neither closed nor detached.
  The promise that \<open>connect\<close> returns (resolved by the open listener, rejected by the
  error listener) and the listener that answers an inbound ping with a pong are left out:
  neither changes a field of the client.\<close>

definition connect :: "client \<Rightarrow> client" where
  "connect s = s\<lparr>ws := Some (length (sockets s)), sockets := sockets s @ [CONNECTING]\<rparr>"

definition on_open :: "nat \<Rightarrow> client \<Rightarrow> client" where
  "on_open now s =
     (let s1 = s\<lparr>isConnected := True, reconnectAttempts := 0\<rparr>;
          s2 = emit Ev_connected s1;
          s3 = startHeartbeat s2;
          s4 = (if cfg_auth s3 \<noteq> None then authenticate now s3 else s3)
      in resubscribeAll s4)"

text \<open>The handlers of one key are called in the Set's order. \<open>raises h d\<close> says whether
  handler \<open>h\<close> raises on \<open>d\<close> and with what; handlers do not call back into the client.
  The \<open>catch\<close> around each call emits \<open>error\<close>; when that \<open>emit\<close> throws, the exception
  leaves \<open>forEach\<close>.\<close>

fun run_handlers ::
  "(handler \<Rightarrow> ws_data \<Rightarrow> string option) \<Rightarrow> handler list \<Rightarrow> ws_data \<Rightarrow> client
     \<Rightarrow> client \<times> string option" where
  "run_handlers raises [] d s = (s, None)"
| "run_handlers raises (h # hs) d s =
     (let s1 = s\<lparr>calls := calls s @ [(h, d)]\<rparr>
      in case raises h d of
           None \<Rightarrow> run_handlers raises hs d s1
         | Some e \<Rightarrow>
             (case emit_error e s1 of
                (s2, Some t) \<Rightarrow> (s2, Some t)
              | (s2, None) \<Rightarrow> run_handlers raises hs d s2))"

definition handleMessage ::
  "(handler \<Rightarrow> ws_data \<Rightarrow> string option) \<Rightarrow> ws_message \<Rightarrow> client \<Rightarrow> client \<times> string option" where
  "handleMessage raises m s =
     (if m_type m = ''subscribed'' then (emit (Ev_subscribed m) s, None)
      else if m_type m = ''unsubscribed'' then (emit (Ev_unsubscribed m) s, None)
      else if m_type m = ''error'' then
        emit_error (case d_message (m_data m) of Some t \<Rightarrow> t | None \<Rightarrow> ''Unknown error'') s
      else
        (let key = getSubscriptionKey (m_channel m) (d_market (m_data m));
             r = (case map_get (subscriptions s) key of
                    Some hs \<Rightarrow> run_handlers raises hs (m_data m) s
                  | None \<Rightarrow> (s, None))
         in case r of
              (s1, Some t) \<Rightarrow> (s1, Some t)
            | (s1, None) \<Rightarrow>
                (let s2 = (case m_sequence m of
                             Some n \<Rightarrow> if n \<noteq> 0 then s1\<lparr>sequenceNumber := n\<rparr> else s1
                           | None \<Rightarrow> s1)
                 in (emit (Ev_message m) s2, None))))"

text \<open>The \<open>message\<close> listener parses the frame and calls \<open>handleMessage\<close> inside
  \<open>try\<close>; whatever is thrown in there is caught (and only logged when debugging).\<close>

datatype frame = Malformed | Parsed ws_message

definition on_message :: "(handler \<Rightarrow> ws_data \<Rightarrow> string option) \<Rightarrow> frame \<Rightarrow> client \<Rightarrow> client" where
  "on_message raises f s =
     (case f of
        Malformed \<Rightarrow> s
      | Parsed m \<Rightarrow> fst (handleMessage raises m s))"

definition on_error :: "string \<Rightarrow> client \<Rightarrow> client" where
  "on_error e s = fst (emit_error e s)"

definition scheduleReconnect :: "client \<Rightarrow> client" where
  "scheduleReconnect s =
     (let s1 = s\<lparr>reconnectAttempts := reconnectAttempts s + 1\<rparr>;
          delay = cfg_reconnectDelay s1 * 2 ^ (min (reconnectAttempts s1 - 1) 5)
      in s1\<lparr>reconnectTimeout := Some (length (timers s1)),
             timers := timers s1 @ [(delay, Pending)]\<rparr>)"

definition on_close :: "nat \<Rightarrow> string \<Rightarrow> client \<Rightarrow> client" where
  "on_close code reason s =
     (let s1 = s\<lparr>isConnected := False\<rparr>;
          s2 = stopHeartbeat s1;
          s3 = emit (Ev_disconnected code reason) s2
      in if cfg_reconnect s3 \<and> reconnectAttempts s3 < cfg_maxReconnectAttempts s3
         then scheduleReconnect s3 else s3)"

text \<open>\<open>clearTimeout\<close> only affects a timeout that has not fired yet; \<open>close()\<close> on a
  transport that is not closed yet starts its closing.\<close>

definition clearTimeout :: "nat \<Rightarrow> client \<Rightarrow> client" where
  "clearTimeout t s =
     (if t < length (timers s) \<and> snd (timers s ! t) = Pending
      then s\<lparr>timers := (timers s)[t := (fst (timers s ! t), Cleared)]\<rparr> else s)"

definition ws_close :: "nat \<Rightarrow> client \<Rightarrow> client" where
  "ws_close i s =
     (if i < length (sockets s) \<and> sockets s ! i \<noteq> CLOSED
      then s\<lparr>sockets := (sockets s)[i := CLOSING]\<rparr> else s)"

definition disconnect :: "client \<Rightarrow> client" where
  "disconnect s =
     (let s1 = s\<lparr>cfg_reconnect := False\<rparr>;
          s2 = (case reconnectTimeout s1 of Some t \<Rightarrow> clearTimeout t s1 | None \<Rightarrow> s1);
          s3 = stopHeartbeat s2;
          s4 = (case ws s3 of Some i \<Rightarrow> (ws_close i s3)\<lparr>ws := None\<rparr> | None \<Rightarrow> s3);
          s5 = s4\<lparr>isConnected := False\<rparr>
      in emit (Ev_disconnected 1000 ''Client disconnect'') s5)"

subsection \<open>The client as a transition system\<close>

text \<open>
  An input is a call of the public interface or something the surroundings deliver: a
  transport opens, receives a frame, fails or closes; a scheduled timeout fires (its
  callback calls \<open>connect\<close>); the heartbeat interval ticks. The surroundings deliver an
  input only when it can occur (a transport opens only while connecting, a timeout fires
  only while pending, the interval ticks only while set); otherwise the state is unchanged.
\<close>

datatype input =
    CallConnect
  | CallDisconnect
  | CallSubscribe string handler "string option"
  | CallUnsubscribe string "handler option" "string option"
  | SockOpen nat nat
  | SockMessage nat frame
  | SockError nat string
  | SockClose nat nat string
  | TimerFire nat
  | HeartbeatTick

fun step :: "(handler \<Rightarrow> ws_data \<Rightarrow> string option) \<Rightarrow> input \<Rightarrow> client \<Rightarrow> client" where
  "step raises CallConnect s = connect s"
| "step raises CallDisconnect s = disconnect s"
| "step raises (CallSubscribe c h m) s = subscribe c h m s"
| "step raises (CallUnsubscribe c h m) s = unsubscribe c h m s"
| "step raises (SockOpen i now) s =
     (if i < length (sockets s) \<and> sockets s ! i = CONNECTING
      then on_open now (s\<lparr>sockets := (sockets s)[i := OPEN]\<rparr>) else s)"
| "step raises (SockMessage i f) s =
     (if i < length (sockets s) \<and> sockets s ! i \<in> {OPEN, CLOSING}
      then on_message raises f s else s)"
| "step raises (SockError i e) s =
     (if i < length (sockets s) \<and> sockets s ! i \<noteq> CLOSED then on_error e s else s)"
| "step raises (SockClose i code reason) s =
     (if i < length (sockets s) \<and> sockets s ! i \<noteq> CLOSED
      then on_close code reason (s\<lparr>sockets := (sockets s)[i := CLOSED]\<rparr>) else s)"
| "step raises (TimerFire t) s =
     (if t < length (timers s) \<and> snd (timers s ! t) = Pending
      then connect (s\<lparr>timers := (timers s)[t := (fst (timers s ! t), Fired)]\<rparr>) else s)"
| "step raises HeartbeatTick s = (if heartbeatInterval s then heartbeat_tick s else s)"

fun run :: "(handler \<Rightarrow> ws_data \<Rightarrow> string option) \<Rightarrow> input list \<Rightarrow> client \<Rightarrow> client" where
  "run raises [] s = s"
| "run raises (i # is) s = run raises is (step raises i s)"

text \<open>A freshly constructed client: the constructor's defaults for what is not given.\<close>

definition new_client :: "hmac_auth option \<Rightarrow> client" where
  "new_client a =
     \<lparr>ws = None, cfg_auth = a, cfg_reconnect = True, cfg_reconnectDelay = 5000,
      cfg_maxReconnectAttempts = 10, subscriptions = [], isConnected = False,
      reconnectAttempts = 0, heartbeatInterval = False, sequenceNumber = 0,
      reconnectTimeout = None, sockets = [], timers = [], error_listeners = 0,
      wire = [], emitted = [], calls = [], pings = []\<rparr>"

section \<open>The request executor\<close>

text \<open>
  \<open>EnclaveClient.request(method, path, body, attempt = 1)\<close> issues one HTTPS request and
  attaches three listeners: for the end of the response, for an \<open>error\<close> of the request
  and for its \<open>timeout\<close>. Each listener resolves or rejects the promise of this call, or
  schedules \<open>request(method, path, body, attempt + 1)\<close> with \<open>setTimeout\<close> and forwards
  its result to the same promise. The request body and the authentication headers do not
  influence any of this and are left out.
\<close>

record req_config =
  maxRetries :: nat
  retryDelay :: nat
  timeout :: nat

record api_error =
  e_message :: string
  e_endpoint :: string
  e_method :: string
  e_statusCode :: "nat option"
  e_responseBody :: "string option"

definition newline :: string where
  "newline = [CHR 0x0A]"

text \<open>The constructor of \<open>EnclaveApiError\<close>: the message is enhanced with the endpoint,
  the status code (when truthy) and at most the first 200 characters of the response
  body (when truthy).\<close>

definition status_line :: "nat option \<Rightarrow> string" where
  "status_line statusCode =
     (case statusCode of
        None \<Rightarrow> []
      | Some n \<Rightarrow> if n \<noteq> 0 then ''  Status Code: '' @ show_nat n @ newline else [])"

definition response_line :: "string option \<Rightarrow> string" where
  "response_line responseBody =
     (case responseBody of
        None \<Rightarrow> []
      | Some b \<Rightarrow>
          if b \<noteq> [] then ''  Response: '' @ take 200 b @ (if length b > 200 then ''...'' else [])
          else [])"

definition EnclaveApiError ::
  "string \<Rightarrow> string \<Rightarrow> string \<Rightarrow> nat option \<Rightarrow> string option \<Rightarrow> api_error" where
  "EnclaveApiError msg endpoint meth statusCode responseBody =
     \<lparr>e_message =
        ''Enclave API Error: '' @ msg @ newline @
        ''  Endpoint: '' @ meth @ '' '' @ endpoint @ newline @
        status_line statusCode @ response_line responseBody,
      e_endpoint = endpoint, e_method = meth, e_statusCode = statusCode,
      e_responseBody = responseBody\<rparr>"

text \<open>\<open>String(e)\<close> for an \<open>EnclaveApiError\<close>: its name, a colon and its message.\<close>

definition error_to_string :: "api_error \<Rightarrow> string" where
  "error_to_string e = ''EnclaveApiError: '' @ e_message e"

text \<open>What \<open>JSON.parse\<close> gives for a response body, as far as the listener looks at it:
  \<open>null\<close>, an object with its optional \<open>error\<close> and \<open>message\<close> properties, or another
  value (which has neither property). The parser itself is a parameter; \<open>Inl t\<close> is the
  rendering \<open>String(e)\<close> of the syntax error it throws.\<close>

datatype json = JNull | JObject "string option" "string option" | JOther

type_synonym parser = "string \<Rightarrow> string + json"

text \<open>Reading a property of \<open>null\<close> throws a \<open>TypeError\<close>; this is its rendering
  (the wording is the engine's).\<close>

definition null_property_error :: string where
  "null_property_error = ''TypeError: Cannot read properties of null (reading 'error')''"

datatype failure = ApiError api_error | TransportError string | TimeoutError string

datatype action = Resolve json | Reject failure | Retry nat

definition failed_to_parse ::
  "string \<Rightarrow> string \<Rightarrow> string \<Rightarrow> nat option \<Rightarrow> string \<Rightarrow> action" where
  "failed_to_parse t path meth status data =
     Reject (ApiError (EnclaveApiError (''Failed to parse response: '' @ t) path meth status (Some data)))"

text \<open>The listener for the end of the response, with the status code and the collected
  body. Everything thrown inside its \<open>try\<close> is rejected as "Failed to parse response".\<close>

definition on_end ::
  "req_config \<Rightarrow> parser \<Rightarrow> string \<Rightarrow> string \<Rightarrow> nat \<Rightarrow> nat option \<Rightarrow> string \<Rightarrow> action" where
  "on_end cfg parse meth path attempt status data =
     (case status of
        None \<Rightarrow>
          failed_to_parse
            (error_to_string (EnclaveApiError ''No status code received'' path meth None None))
            path meth status data
      | Some code \<Rightarrow>
          if code = 0 then
            failed_to_parse
              (error_to_string (EnclaveApiError ''No status code received'' path meth None None))
              path meth status data
          else if code = 429 \<and> attempt \<le> maxRetries cfg then
            Retry (retryDelay cfg * 2 ^ (attempt - 1))
          else
            (case (if data \<noteq> [] then parse data else Inr (JObject None None)) of
               Inl t \<Rightarrow> failed_to_parse t path meth status data
             | Inr parsed \<Rightarrow>
                 if 200 \<le> code \<and> code < 300 then Resolve parsed
                 else
                   (case parsed of
                      JNull \<Rightarrow> failed_to_parse null_property_error path meth status data
                    | JObject err msg \<Rightarrow>
                        Reject (ApiError (EnclaveApiError
                          (case err of Some t \<Rightarrow> t
                           | None \<Rightarrow> (case msg of Some t \<Rightarrow> t | None \<Rightarrow> data))
                          path meth status (Some data)))
                    | JOther \<Rightarrow>
                        Reject (ApiError (EnclaveApiError data path meth status (Some data))))))"

definition on_req_error :: "req_config \<Rightarrow> nat \<Rightarrow> string \<Rightarrow> action" where
  "on_req_error cfg attempt err =
     (if attempt \<le> maxRetries cfg then Retry (retryDelay cfg * 2 ^ (attempt - 1))
      else Reject (TransportError err))"

text \<open>The \<open>timeout\<close> listener: \<open>req.destroy()\<close>, then reject.\<close>

definition on_timeout :: "req_config \<Rightarrow> action" where
  "on_timeout cfg = Reject (TimeoutError (''Request timeout after '' @ show_nat (timeout cfg) @ ''ms''))"

text \<open>
  What happens to one attempt: the response ends with a status and a body; or the request
  fails with an \<open>error\<close> event; or it times out. In the last case the listener destroys
  the request, and Node's HTTP client emits \<open>error\<close> ("socket hang up") on a request
  destroyed before its response has arrived: \<open>RequestTimeout (Some e)\<close>. When the response
  had already begun, no \<open>error\<close> event follows on the request: \<open>RequestTimeout None\<close>.
\<close>

datatype attempt_event =
    ResponseEnd "nat option" string
  | RequestError string
  | RequestTimeout "string option"

text \<open>One call chain: the promise the caller holds (settled at most once), the attempt
  numbers issued so far, and the delays passed to \<open>setTimeout\<close>.\<close>

record call =
  promise :: "(failure + json) option"
  attempts :: "nat list"
  delays :: "nat list"

definition new_call :: call where
  "new_call = \<lparr>promise = None, attempts = [], delays = []\<rparr>"

definition settle :: "failure + json \<Rightarrow> call \<Rightarrow> call" where
  "settle v r = (if promise r = None then r\<lparr>promise := Some v\<rparr> else r)"

fun perform :: "action \<Rightarrow> call \<Rightarrow> call \<times> bool" where
  "perform (Resolve v) r = (settle (Inr v) r, False)"
| "perform (Reject e) r = (settle (Inl e) r, False)"
| "perform (Retry d) r = (r\<lparr>delays := delays r @ [d]\<rparr>, True)"

text \<open>One attempt; the flag says whether attempt + 1 has been scheduled.\<close>

definition attempt_step ::
  "req_config \<Rightarrow> parser \<Rightarrow> string \<Rightarrow> string \<Rightarrow> nat \<Rightarrow> attempt_event \<Rightarrow> call \<Rightarrow> call \<times> bool" where
  "attempt_step cfg parse meth path attempt ev r =
     (let r1 = r\<lparr>attempts := attempts r @ [attempt]\<rparr>
      in case ev of
           ResponseEnd status data \<Rightarrow> perform (on_end cfg parse meth path attempt status data) r1
         | RequestError e \<Rightarrow> perform (on_req_error cfg attempt e) r1
         | RequestTimeout follow \<Rightarrow>
             (let r2 = fst (perform (on_timeout cfg) r1)
              in case follow of
                   None \<Rightarrow> (r2, False)
                 | Some e \<Rightarrow> perform (on_req_error cfg attempt e) r2))"

text \<open>The remote side is a function from the attempt number to what happens to that
  attempt.\<close>

function request ::
  "req_config \<Rightarrow> parser \<Rightarrow> (nat \<Rightarrow> attempt_event) \<Rightarrow> string \<Rightarrow> string \<Rightarrow> nat \<Rightarrow> call \<Rightarrow> call" where
  "request cfg parse env meth path attempt r =
     (let res = attempt_step cfg parse meth path attempt (env attempt) r
      in if snd res then request cfg parse env meth path (attempt + 1) (fst res) else fst res)"
  by pat_completeness auto
termination
proof (relation "measure (\<lambda>(cfg, parse, env, meth, path, attempt, r). maxRetries cfg + 1 - attempt)")
  show "wf (measure (\<lambda>(cfg, parse, env, meth, path, attempt, r). maxRetries cfg + 1 - attempt))"
    by simp
next
  fix cfg :: req_config and parse :: parser and env :: "nat \<Rightarrow> attempt_event"
    and meth path :: string and attempt :: nat and r :: call and res :: "call \<times> bool"
  assume "res = attempt_step cfg parse meth path attempt (env attempt) r" and "snd res"
  then have "attempt \<le> maxRetries cfg"
    by (auto simp: attempt_step_def on_end_def on_req_error_def on_timeout_def failed_to_parse_def
             Let_def split: attempt_event.splits option.splits if_splits sum.splits json.splits)
  then show "((cfg, parse, env, meth, path, attempt + 1, fst res), (cfg, parse, env, meth, path, attempt, r))
      \<in> measure (\<lambda>(cfg, parse, env, meth, path, attempt, r). maxRetries cfg + 1 - attempt)"
    by simp
qed

section \<open>Registry invariant\<close>


section \<open>Concrete inputs\<close>

text \<open>The executor's default configuration, a parser that answers every body with an
  object without \<open>error\<close> and \<open>message\<close>, a body of 250 characters, and a remote side
  whose first attempt times out before a response arrives and whose later attempts
  succeed with an empty body.\<close>

definition cfg_default :: req_config where
  "cfg_default = \<lparr>maxRetries = 3, retryDelay = 1000, timeout = 30000\<rparr>"

definition parse_object :: parser where
  "parse_object data = Inr (JObject None None)"

definition long_body :: string where
  "long_body = replicate 250 (CHR ''x'')"

definition env_timeout :: "nat \<Rightarrow> attempt_event" where
  "env_timeout a =
     (if a = 1 then RequestTimeout (Some ''socket hang up'') else ResponseEnd (Some 200) [])"

section \<open>What is expected on the wire\<close>

text \<open>The current transport when it is open (the condition of \<open>send\<close>), the
  authentication message of a client with credentials, and one subscribe message per
  registry key in the registry's order.\<close>

definition transport_open :: "client \<Rightarrow> nat option" where
  "transport_open s =
     (case ws s of
        None \<Rightarrow> None
      | Some i \<Rightarrow> if readyState s i = OPEN then Some i else None)"

definition auth_msgs :: "client \<Rightarrow> nat \<Rightarrow> nat \<Rightarrow> (nat \<times> wire_msg) list" where
  "auth_msgs s i now =
     (case cfg_auth s of
        None \<Rightarrow> []
      | Some a \<Rightarrow> [(i, AuthMsg now (apiKey a) (sign a (show_nat now @ ''WS_AUTH'')))])"

definition replay_msgs :: "client \<Rightarrow> nat \<Rightarrow> (nat \<times> wire_msg) list" where
  "replay_msgs s i = map (\<lambda>key. (i, resubscribe_msg key)) (map fst (subscriptions s))"

section \<open>Concrete clients\<close>

text \<open>Handlers that never raise; a client that subscribed to \<open>prices\<close> with handler 1,
  connected, and whose transport 0 opened; a client with two latent subscriptions.\<close>

definition no_raise :: "handler \<Rightarrow> ws_data \<Rightarrow> string option" where
  "no_raise h d = None"

definition connected_prices :: client where
  "connected_prices =
     run no_raise [CallSubscribe ''prices'' 1 None, CallConnect, SockOpen 0 0] (new_client None)"


text \<open>A data frame on channel \<open>prices\<close> carrying a sequence value; a client with two
  handlers for one key and no listener for \<open>error\<close> (as \<open>EnclaveClient\<close> creates it); a
  data frame for that key; handlers of which handler 1 raises.\<close>

definition seq_frame :: "int \<Rightarrow> ws_message" where
  "seq_frame n =
     \<lparr>m_channel = ''prices'', m_type = ''update'',
      m_data = \<lparr>d_market = None, d_message = None, d_body = 0\<rparr>, m_sequence = Some n\<rparr>"

definition two_handlers :: client where
  "two_handlers =
     run no_raise [CallSubscribe ''tradesPerps'' 1 (Some ''BTC-USD.P''),
                   CallSubscribe ''tradesPerps'' 2 (Some ''BTC-USD.P'')] (new_client None)"

definition trade_data :: ws_data where
  "trade_data = \<lparr>d_market = Some ''BTC-USD.P'', d_message = None, d_body = 7\<rparr>"

definition trade_frame :: ws_message where
  "trade_frame =
     \<lparr>m_channel = ''tradesPerps'', m_type = ''update'', m_data = trade_data, m_sequence = Some 5\<rparr>"

definition first_raises :: "handler \<Rightarrow> ws_data \<Rightarrow> string option" where
  "first_raises h d = (if h = 1 then Some ''boom'' else None)"

section \<open>What a dispatch is expected to call\<close>

text \<open>The handlers of a list up to and including the first one that raises, and the
  error that one raises.\<close>

fun called_until_raise :: "(handler \<Rightarrow> ws_data \<Rightarrow> string option) \<Rightarrow> handler list \<Rightarrow> ws_data \<Rightarrow> handler list" where
  "called_until_raise raises [] d = []"
| "called_until_raise raises (h # hs) d =
     h # (case raises h d of None \<Rightarrow> called_until_raise raises hs d | Some e \<Rightarrow> [])"

fun first_raise :: "(handler \<Rightarrow> ws_data \<Rightarrow> string option) \<Rightarrow> handler list \<Rightarrow> ws_data \<Rightarrow> string option" where
  "first_raise raises [] d = None"
| "first_raise raises (h # hs) d =
     (case raises h d of None \<Rightarrow> first_raise raises hs d | Some e \<Rightarrow> Some e)"

section \<open>Timers and quiet states\<close>

text \<open>The timeouts that can still fire. A client owns its timers and transports singly
  when the only timeout that can still fire is the remembered one and the only transport
  still connecting is the current one. A client is quiet when reconnection is disabled,
  no heartbeat interval is set, there is no current transport, no timeout can fire and no
  transport is connecting.\<close>

definition pending_timers :: "client \<Rightarrow> nat list" where
  "pending_timers s = filter (\<lambda>t. snd (timers s ! t) = Pending) [0 ..< length (timers s)]"

definition connecting_sockets :: "client \<Rightarrow> nat list" where
  "connecting_sockets s = filter (\<lambda>i. sockets s ! i = CONNECTING) [0 ..< length (sockets s)]"

definition single_owner :: "client \<Rightarrow> bool" where
  "single_owner s =
     (list_all (\<lambda>t. reconnectTimeout s = Some t) (pending_timers s)
      \<and> list_all (\<lambda>i. ws s = Some i) (connecting_sockets s))"

definition quiet :: "client \<Rightarrow> bool" where
  "quiet s =
     (\<not> cfg_reconnect s \<and> \<not> heartbeatInterval s \<and> ws s = None
      \<and> pending_timers s = [] \<and> connecting_sockets s = [])"

text \<open>A client whose only transport opened and then closed, so that a reconnect is
  scheduled; and the inputs of a client on which \<open>connect\<close> is called twice, both
  transports open and close, \<open>disconnect\<close> is called, and the timeout scheduled first
  fires.\<close>

definition reconnect_pending :: client where
  "reconnect_pending =
     run no_raise [CallConnect, SockOpen 0 0, SockClose 0 1006 []] (new_client None)"

definition two_transports_closed :: "input list" where
  "two_transports_closed =
     [CallConnect, CallConnect, SockOpen 0 0, SockOpen 1 0,
      SockClose 0 1006 [], SockClose 1 1006 []]"

section \<open>Inputs that remove subscriptions\<close>




section \<open>Facts about the registry operations\<close>






lemma map_delete_keys: "map fst (map_delete k m) = removeAll k (map fst m)"
  by (induction m) (auto simp: map_delete_def)






lemma subscriptions_send [simp]: "subscriptions (send m s) = subscriptions s"
  by (simp add: send_def split: option.splits)

lemma isConnected_send [simp]: "isConnected (send m s) = isConnected s"
  by (simp add: send_def split: option.splits)






lemma subscriptions_fold_send [simp]:
  "subscriptions (fold (\<lambda>k. send (f k)) ks s) = subscriptions s"
  by (induction ks arbitrary: s) auto

lemma subscriptions_run_handlers [simp]:
  "subscriptions (fst (run_handlers raises hs d s)) = subscriptions s"
  by (induction hs arbitrary: s) (auto simp: Let_def emit_error_def split: option.splits)

lemma subscriptions_handleMessage [simp]:
  "subscriptions (fst (handleMessage raises m s)) = subscriptions s"
  unfolding handleMessage_def Let_def
  by (auto simp: emit_def emit_error_def split: option.splits prod.splits if_splits
           dest: arg_cong [where f = "\<lambda>r. subscriptions (fst r)"])




section \<open>Replay of a stored key\<close>

lemma split_on_nonempty: "split_on c s \<noteq> []"
  by (induction s) (auto split: list.splits)

lemma split_on_no_sep: "c \<notin> set a \<Longrightarrow> split_on c a = [a]"
  by (induction a) auto

lemma split_on_append: "c \<notin> set a \<Longrightarrow> split_on c (a @ c # b) = a # split_on c b"
  by (induction a) auto

lemma hd_split_on: "hd (split_on c s) = takeWhile (\<lambda>x. x \<noteq> c) s"
  by (induction s) (auto split: list.splits simp: split_on_nonempty)

lemma resubscribe_msg_plain:
  "CHR '':'' \<notin> set channel \<Longrightarrow> resubscribe_msg channel = SubscribeMsg channel None"
  by (simp add: resubscribe_msg_def split_on_no_sep nth_opt_def subscribe_msg_def truthy_def)

lemma resubscribe_msg_qualified:
  assumes "CHR '':'' \<notin> set channel"
  shows "resubscribe_msg (channel @ '':'' @ m) =
           subscribe_msg channel (Some (takeWhile (\<lambda>x. x \<noteq> CHR '':'') m))"
proof -
  have "split_on (CHR '':'') (channel @ '':'' @ m) = channel # split_on (CHR '':'') m"
    using split_on_append [OF assms, of m] by simp
  moreover obtain p ps where "split_on (CHR '':'') m = p # ps"
    using split_on_nonempty [of "CHR '':''" m] by (cases "split_on (CHR '':'') m") auto
  moreover from this have "p = takeWhile (\<lambda>x. x \<noteq> CHR '':'') m"
    using hd_split_on [of "CHR '':''" m] by simp
  ultimately show ?thesis
    by (simp add: resubscribe_msg_def nth_opt_def)
qed

lemma takeWhile_neq_id: "takeWhile P m = m \<longleftrightarrow> (\<forall>x\<in>set m. P x)"
  by (induction m) auto

section \<open>Facts about the request executor\<close>

lemma request_unfold:
  "request cfg parse env meth path attempt r =
     (if snd (attempt_step cfg parse meth path attempt (env attempt) r)
      then request cfg parse env meth path (attempt + 1)
             (fst (attempt_step cfg parse meth path attempt (env attempt) r))
      else fst (attempt_step cfg parse meth path attempt (env attempt) r))"
  by (subst request.simps) (simp add: Let_def)


lemma EnclaveApiError_fields:
  "e_statusCode (EnclaveApiError msg endpoint meth status body) = status"
  "e_endpoint (EnclaveApiError msg endpoint meth status body) = endpoint"
  "e_method (EnclaveApiError msg endpoint meth status body) = meth"
  "e_responseBody (EnclaveApiError msg endpoint meth status body) = body"
  by (simp_all add: EnclaveApiError_def)

lemma EnclaveApiError_message:
  "e_message (EnclaveApiError msg endpoint meth status body) =
     ''Enclave API Error: '' @ msg @ newline @
     ''  Endpoint: '' @ meth @ '' '' @ endpoint @ newline @
     status_line status @ response_line body"
  by (simp add: EnclaveApiError_def)

lemma on_end_reject_fields:
  assumes "code \<noteq> 0" and "\<not> (200 \<le> code \<and> code < 300)"
    and "code = 429 \<longrightarrow> maxRetries cfg < attempt"
  shows "\<exists>msg. on_end cfg parse meth path attempt (Some code) d =
           Reject (ApiError (EnclaveApiError msg path meth (Some code) (Some d)))"
  using assms
  by (auto simp: on_end_def failed_to_parse_def split: sum.splits json.splits option.splits)


section \<open>Facts about sending, opening and subscribing\<close>

lemma send_eq:
  "send m s = s\<lparr>wire := wire s @ (case transport_open s of Some i \<Rightarrow> [(i, m)] | None \<Rightarrow> [])\<rparr>"
  by (simp add: send_def transport_open_def split: option.splits)

lemma transport_open_wire [simp]: "transport_open (s\<lparr>wire := w\<rparr>) = transport_open s"
  by (simp add: transport_open_def readyState_def split: option.splits)

lemma fold_send_eq:
  "fold (\<lambda>k. send (f k)) ks s =
     s\<lparr>wire := wire s @ (case transport_open s of Some i \<Rightarrow> map (\<lambda>k. (i, f k)) ks | None \<Rightarrow> [])\<rparr>"
  by (induction ks arbitrary: s) (auto simp: send_eq split: option.splits)

lemma on_open_eq:
  "on_open now s =
     s\<lparr>isConnected := True, reconnectAttempts := 0, emitted := emitted s @ [Ev_connected],
       heartbeatInterval := True,
       wire := wire s @ (case transport_open s of
                           Some i \<Rightarrow> auth_msgs s i now @ replay_msgs s i
                         | None \<Rightarrow> [])\<rparr>"
  by (auto simp: on_open_def Let_def emit_def startHeartbeat_def stopHeartbeat_def authenticate_def
      resubscribeAll_def fold_send_eq send_eq auth_msgs_def replay_msgs_def transport_open_def
      readyState_def split: option.splits)




lemma connected_prices_eq:
  "connected_prices =
     (new_client None)\<lparr>ws := Some 0, sockets := [OPEN], subscriptions := [(''prices'', [1])],
        isConnected := True, heartbeatInterval := True, emitted := [Ev_connected],
        wire := [(0, SubscribeMsg ''prices'' None)]\<rparr>"
  by (simp add: connected_prices_def new_client_def subscribe_def getSubscriptionKey_def map_has_def
      map_get_def set_add_def connect_def on_open_eq transport_open_def readyState_def
      auth_msgs_def replay_msgs_def resubscribe_msg_def nth_opt_def subscribe_msg_def truthy_def)

section \<open>Facts about dispatch\<close>

lemma run_handlers_listened:
  "0 < error_listeners s \<Longrightarrow>
     run_handlers raises hs d s =
       (s\<lparr>calls := calls s @ map (\<lambda>h. (h, d)) hs,
          emitted := emitted s @ map Ev_error (List.map_filter (\<lambda>h. raises h d) hs)\<rparr>, None)"
proof (induction hs arbitrary: s)
  case Nil
  then show ?case by (simp add: List.map_filter_simps)
next
  case (Cons h hs)
  show ?case
  proof (cases "raises h d")
    case None
    then show ?thesis
      using Cons.prems Cons.IH [of "s\<lparr>calls := calls s @ [(h, d)]\<rparr>"]
      by (simp add: Let_def List.map_filter_simps)
  next
    case (Some e)
    then show ?thesis
      using Cons.prems
        Cons.IH [of "s\<lparr>calls := calls s @ [(h, d)], emitted := emitted s @ [Ev_error e]\<rparr>"]
      by (simp add: Let_def List.map_filter_simps emit_error_def)
  qed
qed

lemma run_handlers_unlistened:
  "error_listeners s = 0 \<Longrightarrow>
     run_handlers raises hs d s =
       (s\<lparr>calls := calls s @ map (\<lambda>h. (h, d)) (called_until_raise raises hs d)\<rparr>,
        first_raise raises hs d)"
proof (induction hs arbitrary: s)
  case Nil
  then show ?case by simp
next
  case (Cons h hs)
  show ?case
  proof (cases "raises h d")
    case None
    then show ?thesis
      using Cons.prems Cons.IH [of "s\<lparr>calls := calls s @ [(h, d)]\<rparr>"]
      by (simp add: Let_def)
  next
    case (Some e)
    then show ?thesis
      using Cons.prems by (simp add: Let_def emit_error_def)
  qed
qed

lemma handleMessage_sequence:
  "calls (fst (handleMessage raises m (s\<lparr>sequenceNumber := k\<rparr>))) = calls (fst (handleMessage raises m s))
   \<and> emitted (fst (handleMessage raises m (s\<lparr>sequenceNumber := k\<rparr>))) = emitted (fst (handleMessage raises m s))
   \<and> wire (fst (handleMessage raises m (s\<lparr>sequenceNumber := k\<rparr>))) = wire (fst (handleMessage raises m s))
   \<and> snd (handleMessage raises m (s\<lparr>sequenceNumber := k\<rparr>)) = snd (handleMessage raises m s)"
proof (cases "error_listeners s = 0")
  case True
  then show ?thesis
    by (simp add: handleMessage_def Let_def emit_def emit_error_def run_handlers_unlistened
        split: option.splits prod.splits)
next
  case False
  then show ?thesis
    by (simp add: handleMessage_def Let_def emit_def emit_error_def run_handlers_listened
        split: option.splits prod.splits)
qed

lemma handleMessage_sequenceNumber:
  "sequenceNumber (fst (handleMessage raises m s)) =
     (case m_sequence m of
        None \<Rightarrow> sequenceNumber s
      | Some n \<Rightarrow>
          if n \<noteq> 0 \<and> m_type m \<noteq> ''subscribed'' \<and> m_type m \<noteq> ''unsubscribed''
             \<and> m_type m \<noteq> ''error'' \<and> snd (handleMessage raises m s) = None
          then n else sequenceNumber s)"
proof (cases "error_listeners s = 0")
  case True
  then show ?thesis
    by (simp add: handleMessage_def Let_def emit_def emit_error_def run_handlers_unlistened
        split: option.splits prod.splits)
next
  case False
  then show ?thesis
    by (simp add: handleMessage_def Let_def emit_def emit_error_def run_handlers_listened
        split: option.splits prod.splits)
qed

lemma two_handlers_eq:
  "two_handlers = (new_client None)\<lparr>subscriptions := [(''tradesPerps:BTC-USD.P'', [1, 2])]\<rparr>"
  by (simp add: two_handlers_def new_client_def subscribe_def getSubscriptionKey_def map_has_def
      map_get_def set_add_def)

section \<open>Facts about closing, reconnecting and disconnecting\<close>

lemma disconnect_eq:
  "disconnect s =
     s\<lparr>cfg_reconnect := False,
       timers := (case reconnectTimeout s of
                    None \<Rightarrow> timers s
                  | Some t \<Rightarrow>
                      if t < length (timers s) \<and> snd (timers s ! t) = Pending
                      then (timers s)[t := (fst (timers s ! t), Cleared)] else timers s),
       heartbeatInterval := False,
       sockets := (case ws s of
                     None \<Rightarrow> sockets s
                   | Some i \<Rightarrow>
                       if i < length (sockets s) \<and> sockets s ! i \<noteq> CLOSED
                       then (sockets s)[i := CLOSING] else sockets s),
       ws := None, isConnected := False,
       emitted := emitted s @ [Ev_disconnected 1000 ''Client disconnect'']\<rparr>"
  by (simp add: disconnect_def Let_def clearTimeout_def stopHeartbeat_def ws_close_def emit_def
      split: option.splits)

lemma on_close_eq:
  "on_close code reason s =
     (if cfg_reconnect s \<and> reconnectAttempts s < cfg_maxReconnectAttempts s
      then s\<lparr>isConnected := False, heartbeatInterval := False,
             emitted := emitted s @ [Ev_disconnected code reason],
             reconnectAttempts := reconnectAttempts s + 1,
             reconnectTimeout := Some (length (timers s)),
             timers := timers s @
               [(cfg_reconnectDelay s * 2 ^ (min (reconnectAttempts s) 5), Pending)]\<rparr>
      else s\<lparr>isConnected := False, heartbeatInterval := False,
             emitted := emitted s @ [Ev_disconnected code reason]\<rparr>)"
  by (simp add: on_close_def Let_def stopHeartbeat_def emit_def scheduleReconnect_def)

lemma handleMessage_fields:
  "timers (fst (handleMessage raises m s)) = timers s
   \<and> cfg_reconnect (fst (handleMessage raises m s)) = cfg_reconnect s
   \<and> ws (fst (handleMessage raises m s)) = ws s
   \<and> sockets (fst (handleMessage raises m s)) = sockets s
   \<and> heartbeatInterval (fst (handleMessage raises m s)) = heartbeatInterval s
   \<and> reconnectTimeout (fst (handleMessage raises m s)) = reconnectTimeout s
   \<and> pings (fst (handleMessage raises m s)) = pings s"
proof (cases "error_listeners s = 0")
  case True
  then show ?thesis
    by (simp add: handleMessage_def Let_def emit_def emit_error_def run_handlers_unlistened
        split: option.splits prod.splits)
next
  case False
  then show ?thesis
    by (simp add: handleMessage_def Let_def emit_def emit_error_def run_handlers_listened
        split: option.splits prod.splits)
qed

lemma on_message_fields:
  "timers (on_message raises f s) = timers s
   \<and> cfg_reconnect (on_message raises f s) = cfg_reconnect s
   \<and> ws (on_message raises f s) = ws s
   \<and> sockets (on_message raises f s) = sockets s
   \<and> heartbeatInterval (on_message raises f s) = heartbeatInterval s
   \<and> reconnectTimeout (on_message raises f s) = reconnectTimeout s
   \<and> pings (on_message raises f s) = pings s"
  using handleMessage_fields by (cases f) (simp_all add: on_message_def)

lemma subscribe_fields:
  "timers (subscribe c h m s) = timers s
   \<and> cfg_reconnect (subscribe c h m s) = cfg_reconnect s
   \<and> ws (subscribe c h m s) = ws s
   \<and> sockets (subscribe c h m s) = sockets s
   \<and> heartbeatInterval (subscribe c h m s) = heartbeatInterval s
   \<and> reconnectTimeout (subscribe c h m s) = reconnectTimeout s
   \<and> pings (subscribe c h m s) = pings s"
  by (simp add: subscribe_def Let_def sendSubscribe_def send_eq)

lemma unsubscribe_fields:
  "timers (unsubscribe c h m s) = timers s
   \<and> cfg_reconnect (unsubscribe c h m s) = cfg_reconnect s
   \<and> ws (unsubscribe c h m s) = ws s
   \<and> sockets (unsubscribe c h m s) = sockets s
   \<and> heartbeatInterval (unsubscribe c h m s) = heartbeatInterval s
   \<and> reconnectTimeout (unsubscribe c h m s) = reconnectTimeout s
   \<and> pings (unsubscribe c h m s) = pings s"
  by (simp add: unsubscribe_def Let_def sendUnsubscribe_def send_eq)

lemma on_error_eq:
  "on_error e s = (if error_listeners s = 0 then s else s\<lparr>emitted := emitted s @ [Ev_error e]\<rparr>)"
  by (simp add: on_error_def emit_error_def)

lemma heartbeat_tick_eq:
  "heartbeat_tick s =
     s\<lparr>pings := pings s @ (case transport_open s of Some i \<Rightarrow> [i] | None \<Rightarrow> [])\<rparr>"
  by (simp add: heartbeat_tick_def transport_open_def split: option.splits)

lemma in_pending_timers:
  "t \<in> set (pending_timers s) \<longleftrightarrow> t < length (timers s) \<and> snd (timers s ! t) = Pending"
  by (auto simp: pending_timers_def)

lemma in_connecting_sockets:
  "i \<in> set (connecting_sockets s) \<longleftrightarrow> i < length (sockets s) \<and> sockets s ! i = CONNECTING"
  by (auto simp: connecting_sockets_def)

text \<open>No input enables reconnection.\<close>

lemma cfg_reconnect_step:
  "cfg_reconnect (step raises i s) \<Longrightarrow> cfg_reconnect s"
  using on_message_fields [of raises _ s] subscribe_fields [of _ _ _ s] unsubscribe_fields [of _ _ _ s]
  by (cases i)
     (auto simp: connect_def disconnect_eq on_open_eq on_error_eq on_close_eq heartbeat_tick_eq
        split: if_splits)

lemma cfg_reconnect_run:
  "\<not> cfg_reconnect s \<Longrightarrow> \<not> cfg_reconnect (run raises ins s)"
  by (induction ins arbitrary: s) (auto dest: cfg_reconnect_step)

text \<open>While reconnection is disabled, no input makes a further timeout pending.\<close>

lemma pending_step:
  assumes "\<not> cfg_reconnect s"
  shows "set (pending_timers (step raises i s)) \<subseteq> set (pending_timers s)"
proof (cases i)
  case CallDisconnect
  then show ?thesis
    by (auto simp: in_pending_timers disconnect_eq nth_list_update split: option.splits if_splits)
next
  case (TimerFire t)
  then show ?thesis
    by (auto simp: in_pending_timers connect_def nth_list_update split: if_splits)
next
  case (SockClose j c r)
  then show ?thesis
    using assms by (auto simp: in_pending_timers on_close_eq)
next
  case (SockMessage j f)
  then show ?thesis
    using on_message_fields [of raises f s] by (auto simp: in_pending_timers)
next
  case (CallSubscribe c h m)
  then show ?thesis
    using subscribe_fields [of c h m s] by (auto simp: in_pending_timers)
next
  case (CallUnsubscribe c h m)
  then show ?thesis
    using unsubscribe_fields [of c h m s] by (auto simp: in_pending_timers)
qed (auto simp: in_pending_timers connect_def on_open_eq on_error_eq heartbeat_tick_eq)

lemma pending_run:
  "\<not> cfg_reconnect s \<Longrightarrow> set (pending_timers (run raises ins s)) \<subseteq> set (pending_timers s)"
proof (induction ins arbitrary: s)
  case Nil
  then show ?case by simp
next
  case (Cons i ins)
  have "\<not> cfg_reconnect (step raises i s)"
    using Cons.prems cfg_reconnect_step by blast
  then have "set (pending_timers (run raises ins (step raises i s))) \<subseteq> set (pending_timers (step raises i s))"
    by (rule Cons.IH)
  then show ?case
    using pending_step [OF Cons.prems, of raises i] by auto
qed

lemma no_pending_timers:
  "pending_timers s = [] \<longleftrightarrow> (\<forall>t < length (timers s). snd (timers s ! t) \<noteq> Pending)"
  by (auto simp: pending_timers_def filter_empty_conv)

lemma no_connecting_sockets:
  "connecting_sockets s = [] \<longleftrightarrow> (\<forall>i < length (sockets s). sockets s ! i \<noteq> CONNECTING)"
  by (auto simp: connecting_sockets_def filter_empty_conv)

lemma quiet_iff:
  "quiet s \<longleftrightarrow>
     \<not> cfg_reconnect s \<and> \<not> heartbeatInterval s \<and> ws s = None
     \<and> (\<forall>t < length (timers s). snd (timers s ! t) \<noteq> Pending)
     \<and> (\<forall>i < length (sockets s). sockets s ! i \<noteq> CONNECTING)"
  by (simp add: quiet_def no_pending_timers no_connecting_sockets)

text \<open>A quiet client stays quiet under every input except a call of \<open>connect\<close>; no
  transport is created and no ping is sent.\<close>

lemma quiet_step:
  assumes "quiet s" and "i \<noteq> CallConnect"
  shows "quiet (step raises i s) \<and> length (sockets (step raises i s)) = length (sockets s)
         \<and> pings (step raises i s) = pings s"
proof (cases i)
  case CallConnect
  with assms show ?thesis by simp
next
  case CallDisconnect
  then show ?thesis
    using assms by (auto simp: quiet_iff disconnect_eq nth_list_update split: option.splits if_splits)
next
  case (CallSubscribe c h m)
  then show ?thesis
    using assms subscribe_fields [of c h m s] by (auto simp: quiet_iff)
next
  case (CallUnsubscribe c h m)
  then show ?thesis
    using assms unsubscribe_fields [of c h m s] by (auto simp: quiet_iff)
next
  case (SockOpen j now)
  then show ?thesis
    using assms by (auto simp: quiet_iff)
next
  case (SockMessage j f)
  then show ?thesis
    using assms on_message_fields [of raises f s] by (auto simp: quiet_iff)
next
  case (SockError j e)
  then show ?thesis
    using assms by (auto simp: quiet_iff on_error_eq)
next
  case (SockClose j c r)
  then show ?thesis
    using assms by (auto simp: quiet_iff on_close_eq nth_list_update)
next
  case (TimerFire t)
  then show ?thesis
    using assms by (auto simp: quiet_iff)
next
  case HeartbeatTick
  then show ?thesis
    using assms by (auto simp: quiet_iff)
qed

lemma quiet_run:
  "quiet s \<Longrightarrow> CallConnect \<notin> set ins \<Longrightarrow>
     quiet (run raises ins s) \<and> length (sockets (run raises ins s)) = length (sockets s)
     \<and> pings (run raises ins s) = pings s"
proof (induction ins arbitrary: s)
  case Nil
  then show ?case by simp
next
  case (Cons i ins)
  then have st: "quiet (step raises i s) \<and> length (sockets (step raises i s)) = length (sockets s)
         \<and> pings (step raises i s) = pings s"
    using quiet_step [of s i raises] by auto
  then have "quiet (run raises ins (step raises i s))
     \<and> length (sockets (run raises ins (step raises i s))) = length (sockets (step raises i s))
     \<and> pings (run raises ins (step raises i s)) = pings (step raises i s)"
    using Cons.IH [of "step raises i s"] Cons.prems by auto
  with st show ?case by simp
qed

lemma quiet_disconnect:
  assumes "single_owner s"
  shows "quiet (disconnect s)"
proof -
  have t: "\<And>t. t < length (timers s) \<Longrightarrow> snd (timers s ! t) = Pending \<Longrightarrow> reconnectTimeout s = Some t"
    using assms by (auto simp: single_owner_def list_all_iff in_pending_timers)
  have c: "\<And>i. i < length (sockets s) \<Longrightarrow> sockets s ! i = CONNECTING \<Longrightarrow> ws s = Some i"
    using assms by (auto simp: single_owner_def list_all_iff in_connecting_sockets)
  have timers_quiet: "snd (timers (disconnect s) ! k) \<noteq> Pending"
    if "k < length (timers (disconnect s))" for k
  proof
    assume p: "snd (timers (disconnect s) ! k) = Pending"
    have len: "k < length (timers s)"
      using that by (simp add: disconnect_eq split: option.splits if_splits)
    have old: "snd (timers s ! k) = Pending"
      using p len by (simp add: disconnect_eq nth_list_update split: option.splits if_splits)
    have "reconnectTimeout s = Some k"
      using t [OF len old] .
    then show False
      using p len old by (simp add: disconnect_eq)
  qed
  have sockets_quiet: "sockets (disconnect s) ! k \<noteq> CONNECTING"
    if "k < length (sockets (disconnect s))" for k
  proof
    assume p: "sockets (disconnect s) ! k = CONNECTING"
    have len: "k < length (sockets s)"
      using that by (simp add: disconnect_eq split: option.splits if_splits)
    have old: "sockets s ! k = CONNECTING"
      using p len by (simp add: disconnect_eq nth_list_update split: option.splits if_splits)
    have "ws s = Some k"
      using c [OF len old] .
    then show False
      using p len old by (simp add: disconnect_eq)
  qed
  show ?thesis
    using timers_quiet sockets_quiet by (simp add: quiet_iff) (simp add: disconnect_eq)
qed

lemma disconnect_twice:
  "disconnect (disconnect s) =
     (disconnect s)\<lparr>emitted := emitted (disconnect s) @ [Ev_disconnected 1000 ''Client disconnect'']\<rparr>"
  by (simp add: disconnect_eq [of "disconnect s"])
     (simp add: disconnect_eq nth_list_update split: option.splits)

lemma pending_disconnect:
  "set (pending_timers (disconnect s)) =
     set (pending_timers s) - (case reconnectTimeout s of Some t \<Rightarrow> {t} | None \<Rightarrow> {})"
  by (auto simp: in_pending_timers disconnect_eq nth_list_update split: option.splits if_splits)

lemma disconnect_plain_fields:
  "cfg_reconnect (disconnect s) = False \<and> heartbeatInterval (disconnect s) = False
   \<and> ws (disconnect s) = None \<and> isConnected (disconnect s) = False
   \<and> length (sockets (disconnect s)) = length (sockets s) \<and> pings (disconnect s) = pings s
   \<and> sockets (disconnect s) =
       (case ws s of
          None \<Rightarrow> sockets s
        | Some i \<Rightarrow>
            if i < length (sockets s) \<and> sockets s ! i \<noteq> CLOSED
            then (sockets s)[i := CLOSING] else sockets s)"
  by (simp add: disconnect_eq split: option.splits)

lemma reconnect_pending_eq:
  "reconnect_pending =
     (new_client None)\<lparr>ws := Some 0, sockets := [CLOSED], emitted := [Ev_connected, Ev_disconnected 1006 []],
        reconnectAttempts := 1, reconnectTimeout := Some 0, timers := [(5000, Pending)]\<rparr>"
  by (simp add: reconnect_pending_def new_client_def connect_def on_open_eq on_close_eq
      transport_open_def readyState_def auth_msgs_def replay_msgs_def)

lemma two_transports_closed_eq:
  "run no_raise two_transports_closed (new_client None) =
     (new_client None)\<lparr>ws := Some 1, sockets := [CLOSED, CLOSED],
        emitted := [Ev_connected, Ev_connected, Ev_disconnected 1006 [], Ev_disconnected 1006 []],
        reconnectAttempts := 2, reconnectTimeout := Some 1,
        timers := [(5000, Pending), (10000, Pending)]\<rparr>"
  by (simp add: two_transports_closed_def new_client_def connect_def on_open_eq on_close_eq
      transport_open_def readyState_def auth_msgs_def replay_msgs_def)

section \<open>Facts about a transport that opens\<close>






section \<open>The claims\<close>









text \<open>
  Claim C4, as the code has it. After \<open>handleMessage\<close> the recorded sequence number is
  the frame's sequence value when the frame is a data frame (its type is none of
  \<open>subscribed\<close>, \<open>unsubscribed\<close>, \<open>error\<close>), the value is present and not zero, and no
  exception left the dispatch; otherwise it is unchanged. So it is the latest such value,
  not the highest. The recorded
  value has no influence on which handlers are called, on what is emitted or written, or
  on whether an exception leaves.
\<close>

theorem sequence_records_latest:
  "sequenceNumber (fst (handleMessage raises m s)) =
     (case m_sequence m of
        None \<Rightarrow> sequenceNumber s
      | Some n \<Rightarrow>
          if n \<noteq> 0 \<and> m_type m \<noteq> ''subscribed'' \<and> m_type m \<noteq> ''unsubscribed''
             \<and> m_type m \<noteq> ''error'' \<and> snd (handleMessage raises m s) = None
          then n else sequenceNumber s)
   \<and> calls (fst (handleMessage raises m (s\<lparr>sequenceNumber := k\<rparr>))) = calls (fst (handleMessage raises m s))
   \<and> emitted (fst (handleMessage raises m (s\<lparr>sequenceNumber := k\<rparr>))) = emitted (fst (handleMessage raises m s))
   \<and> wire (fst (handleMessage raises m (s\<lparr>sequenceNumber := k\<rparr>))) = wire (fst (handleMessage raises m s))
   \<and> snd (handleMessage raises m (s\<lparr>sequenceNumber := k\<rparr>)) = snd (handleMessage raises m s)"
  using handleMessage_sequenceNumber [of raises m s]
    handleMessage_sequence [where raises = raises and m = m and s = s and k = k]
  by simp

text \<open>Claim C4 as stated fails: after frames with the sequence values 5 and then 3 the
  recorded value is 3, below the highest value seen.\<close>

theorem sequence_lower_overwrites_counterexample:
  "sequenceNumber (run no_raise [SockMessage 0 (Parsed (seq_frame 5))] connected_prices) = 5
   \<and> sequenceNumber (run no_raise [SockMessage 0 (Parsed (seq_frame 5)),
                                    SockMessage 0 (Parsed (seq_frame 3))] connected_prices) = 3"
  by (simp add: connected_prices_eq new_client_def on_message_def handleMessage_def seq_frame_def
      getSubscriptionKey_def map_get_def no_raise_def Let_def emit_def)

text \<open>
  Claim C5, evaluated where it fails. The key has the handlers 1 and 2, no listener is
  attached for \<open>error\<close>, and handler 1 raises on the frame. Handler 1 is called; the
  \<open>emit\<close> in the \<open>catch\<close> throws the error again; handler 2 is never called, nothing is
  emitted, the exception leaves \<open>handleMessage\<close>, and the sequence number of the frame
  is not recorded.
\<close>

theorem dispatch_aborts_without_error_listener:
  "error_listeners two_handlers = 0
   \<and> map_get (subscriptions two_handlers) (getSubscriptionKey ''tradesPerps'' (Some ''BTC-USD.P''))
       = Some [1, 2]
   \<and> calls (fst (handleMessage first_raises trade_frame two_handlers)) = [(1, trade_data)]
   \<and> snd (handleMessage first_raises trade_frame two_handlers) = Some ''boom''
   \<and> emitted (fst (handleMessage first_raises trade_frame two_handlers)) = []
   \<and> sequenceNumber (fst (handleMessage first_raises trade_frame two_handlers)) = 0"
  by (simp add: two_handlers_eq new_client_def handleMessage_def trade_frame_def trade_data_def
      getSubscriptionKey_def map_get_def first_raises_def Let_def emit_error_def)

text \<open>
  Claim C6, as the code has it. \<open>disconnect\<close> disables reconnection, cancels the
  remembered timeout (the one scheduled last), clears the heartbeat interval, starts the
  closing of the current transport unless it is closed already, and forgets it. A second
  call changes nothing but emits \<open>disconnected\<close> once more. Whatever inputs follow,
  reconnection stays disabled and no further timeout becomes pending. If, before the
  call, the remembered timeout was the only pending one and the current transport the
  only connecting one, then as long as \<open>connect\<close> is not called again the client stays
  quiet: no timeout can fire, no transport is created, no heartbeat interval is set and
  no ping is sent.
\<close>

theorem disconnect_effects:
  "cfg_reconnect (disconnect s) = False \<and> heartbeatInterval (disconnect s) = False
   \<and> ws (disconnect s) = None \<and> isConnected (disconnect s) = False
   \<and> sockets (disconnect s) =
       (case ws s of
          None \<Rightarrow> sockets s
        | Some i \<Rightarrow>
            if i < length (sockets s) \<and> sockets s ! i \<noteq> CLOSED
            then (sockets s)[i := CLOSING] else sockets s)
   \<and> set (pending_timers (disconnect s)) =
       set (pending_timers s) - (case reconnectTimeout s of Some t \<Rightarrow> {t} | None \<Rightarrow> {})
   \<and> disconnect (disconnect s) =
       (disconnect s)\<lparr>emitted := emitted (disconnect s) @ [Ev_disconnected 1000 ''Client disconnect'']\<rparr>
   \<and> \<not> cfg_reconnect (run raises ins (disconnect s))
   \<and> set (pending_timers (run raises ins (disconnect s))) \<subseteq> set (pending_timers (disconnect s))
   \<and> (single_owner s \<and> CallConnect \<notin> set ins \<longrightarrow>
        quiet (run raises ins (disconnect s))
        \<and> length (sockets (run raises ins (disconnect s))) = length (sockets s)
        \<and> pings (run raises ins (disconnect s)) = pings s)"
proof -
  have off: "\<not> cfg_reconnect (disconnect s)"
    by (simp add: disconnect_plain_fields)
  have later: "\<not> cfg_reconnect (run raises ins (disconnect s))"
    using off by (rule cfg_reconnect_run)
  have timers_later:
    "set (pending_timers (run raises ins (disconnect s))) \<subseteq> set (pending_timers (disconnect s))"
    using off by (rule pending_run)
  have calm: "single_owner s \<and> CallConnect \<notin> set ins \<longrightarrow>
        quiet (run raises ins (disconnect s))
        \<and> length (sockets (run raises ins (disconnect s))) = length (sockets s)
        \<and> pings (run raises ins (disconnect s)) = pings s"
    using quiet_run [of "disconnect s" ins raises] quiet_disconnect [of s]
      disconnect_plain_fields [of s]
    by auto
  have f: "cfg_reconnect (disconnect s) = False" "heartbeatInterval (disconnect s) = False"
    "ws (disconnect s) = None" "isConnected (disconnect s) = False"
    "sockets (disconnect s) =
       (case ws s of
          None \<Rightarrow> sockets s
        | Some i \<Rightarrow>
            if i < length (sockets s) \<and> sockets s ! i \<noteq> CLOSED
            then (sockets s)[i := CLOSING] else sockets s)"
    using disconnect_plain_fields [of s] by blast+
  show ?thesis
    by (intro conjI f pending_disconnect disconnect_twice later timers_later calm)
qed

text \<open>The theorem on a client with a pending reconnect: after \<open>disconnect\<close> the
  timeout does not fire, and no transport is created.\<close>

theorem disconnect_effects_witness:
  "single_owner reconnect_pending \<and> CallConnect \<notin> set [TimerFire 0, HeartbeatTick, SockOpen 0 0]
   \<and> pending_timers reconnect_pending = [0]
   \<and> quiet (run no_raise [TimerFire 0, HeartbeatTick, SockOpen 0 0] (disconnect reconnect_pending))
   \<and> length (sockets (run no_raise [TimerFire 0, HeartbeatTick, SockOpen 0 0] (disconnect reconnect_pending))) = 1
   \<and> pings (run no_raise [TimerFire 0, HeartbeatTick, SockOpen 0 0] (disconnect reconnect_pending)) = []"
proof -
  have own: "single_owner reconnect_pending"
    by (simp add: reconnect_pending_eq new_client_def single_owner_def pending_timers_def
        connecting_sockets_def)
  have ins: "CallConnect \<notin> set [TimerFire 0, HeartbeatTick, SockOpen 0 0]"
    by simp
  have pend: "pending_timers reconnect_pending = [0]"
    by (simp add: reconnect_pending_eq new_client_def pending_timers_def)
  have facts: "length (sockets reconnect_pending) = 1" "pings reconnect_pending = []"
    by (simp_all add: reconnect_pending_eq new_client_def)
  show ?thesis
    using disconnect_effects [of reconnect_pending no_raise "[TimerFire 0, HeartbeatTick, SockOpen 0 0]"]
      own ins pend facts
    by (simp del: run.simps)
qed

text \<open>Claim C6 as stated fails twice. A second \<open>disconnect\<close> emits a second
  \<open>disconnected\<close> event. And when two transports have closed, two timeouts are pending
  but only the second is remembered: after \<open>disconnect\<close> the first one still fires, its
  callback calls \<open>connect\<close>, the new transport opens, and the heartbeat pings it.\<close>

theorem disconnect_counterexample:
  "emitted (disconnect (new_client None)) = [Ev_disconnected 1000 ''Client disconnect'']
   \<and> emitted (disconnect (disconnect (new_client None))) =
       [Ev_disconnected 1000 ''Client disconnect'', Ev_disconnected 1000 ''Client disconnect'']
   \<and> pending_timers (disconnect (run no_raise two_transports_closed (new_client None))) = [0]
   \<and> sockets (run no_raise [TimerFire 0, SockOpen 2 0, HeartbeatTick]
                (disconnect (run no_raise two_transports_closed (new_client None))))
       = [CLOSED, CLOSED, OPEN]
   \<and> pings (run no_raise [TimerFire 0, SockOpen 2 0, HeartbeatTick]
                (disconnect (run no_raise two_transports_closed (new_client None))))
       = [2]"
  by (simp add: two_transports_closed_eq)
     (simp add: new_client_def disconnect_eq pending_timers_def connect_def on_open_eq
        heartbeat_tick_eq transport_open_def readyState_def auth_msgs_def replay_msgs_def)

text \<open>
  Claim C7. When an attempt's response has a status that is not 0, not 429 and not in
  200..299, the call makes no further attempt and schedules nothing: the promise is
  rejected with an \<open>EnclaveApiError\<close> holding the status, the path and the method, whose
  message ends with the first 200 characters of the body, followed by an ellipsis when
  the body is longer.
\<close>

theorem remote_error_not_retried:
  assumes "code \<noteq> 0" and "code \<noteq> 429" and "\<not> (200 \<le> code \<and> code < 300)"
    and "env attempt = ResponseEnd (Some code) d" and "promise r = None"
  shows "\<exists>msg. request cfg parse env meth path attempt r =
           \<lparr>promise = Some (Inl (ApiError (EnclaveApiError msg path meth (Some code) (Some d)))),
            attempts = attempts r @ [attempt], delays = delays r\<rparr>
         \<and> e_statusCode (EnclaveApiError msg path meth (Some code) (Some d)) = Some code
         \<and> e_endpoint (EnclaveApiError msg path meth (Some code) (Some d)) = path
         \<and> e_method (EnclaveApiError msg path meth (Some code) (Some d)) = meth
         \<and> e_message (EnclaveApiError msg path meth (Some code) (Some d)) =
             ''Enclave API Error: '' @ msg @ newline @
             ''  Endpoint: '' @ meth @ '' '' @ path @ newline @
             ''  Status Code: '' @ show_nat code @ newline @
             (if d = [] then []
              else ''  Response: '' @ take 200 d @ (if 200 < length d then ''...'' else []))"
proof -
  obtain msg where rej: "on_end cfg parse meth path attempt (Some code) d =
      Reject (ApiError (EnclaveApiError msg path meth (Some code) (Some d)))"
    using on_end_reject_fields [of code cfg attempt parse meth path d] assms(1-3) by auto
  have res: "request cfg parse env meth path attempt r =
      \<lparr>promise = Some (Inl (ApiError (EnclaveApiError msg path meth (Some code) (Some d)))),
       attempts = attempts r @ [attempt], delays = delays r\<rparr>"
    using rej assms(4,5)
    by (subst request_unfold) (simp add: attempt_step_def settle_def)
  have shape: "e_message (EnclaveApiError msg path meth (Some code) (Some d)) =
             ''Enclave API Error: '' @ msg @ newline @
             ''  Endpoint: '' @ meth @ '' '' @ path @ newline @
             ''  Status Code: '' @ show_nat code @ newline @
             (if d = [] then []
              else ''  Response: '' @ take 200 d @ (if 200 < length d then ''...'' else []))"
    using assms(1) by (simp add: EnclaveApiError_message status_line_def response_line_def)
  show ?thesis
    by (intro exI [of _ msg] conjI res shape EnclaveApiError_fields)
qed

text \<open>The theorem for status 500 with a body of 250 characters.\<close>

theorem remote_error_not_retried_witness:
  "(500::nat) \<noteq> 0 \<and> (500::nat) \<noteq> 429 \<and> \<not> (200 \<le> (500::nat) \<and> (500::nat) < 300)
   \<and> promise new_call = None
   \<and> (\<exists>msg. request cfg_default parse_object (\<lambda>a. ResponseEnd (Some 500) long_body)
              ''GET'' ''/v1/markets'' 1 new_call =
            \<lparr>promise = Some (Inl (ApiError
                (EnclaveApiError msg ''/v1/markets'' ''GET'' (Some 500) (Some long_body)))),
             attempts = [1], delays = []\<rparr>
          \<and> e_message (EnclaveApiError msg ''/v1/markets'' ''GET'' (Some 500) (Some long_body)) =
             ''Enclave API Error: '' @ msg @ newline @
             ''  Endpoint: GET /v1/markets'' @ newline @
             ''  Status Code: 500'' @ newline @
             ''  Response: '' @ replicate 200 (CHR ''x'') @ ''...'')"
proof -
  have p: "promise new_call = None"
    by (simp add: new_call_def)
  have s: "show_nat 500 = ''500''"
    by (simp add: digit_char_def)
  have b: "long_body \<noteq> [] \<and> take 200 long_body = replicate 200 (CHR ''x'') \<and> 200 < length long_body"
    by (simp add: long_body_def)
  obtain msg where
    "request cfg_default parse_object (\<lambda>a. ResponseEnd (Some 500) long_body)
         ''GET'' ''/v1/markets'' 1 new_call =
       \<lparr>promise = Some (Inl (ApiError
           (EnclaveApiError msg ''/v1/markets'' ''GET'' (Some 500) (Some long_body)))),
        attempts = attempts new_call @ [1], delays = delays new_call\<rparr>"
    and "e_message (EnclaveApiError msg ''/v1/markets'' ''GET'' (Some 500) (Some long_body)) =
         ''Enclave API Error: '' @ msg @ newline @
         ''  Endpoint: '' @ ''GET'' @ '' '' @ ''/v1/markets'' @ newline @
         ''  Status Code: '' @ show_nat 500 @ newline @
         (if long_body = [] then []
          else ''  Response: '' @ take 200 long_body @ (if 200 < length long_body then ''...'' else []))"
    using remote_error_not_retried
      [where code = 500 and env = "\<lambda>a. ResponseEnd (Some 500) long_body" and attempt = 1
         and d = long_body and r = new_call and cfg = cfg_default and parse = parse_object
         and meth = "''GET''" and path = "''/v1/markets''"] p
    by auto
  then show ?thesis
    using p s b by (intro conjI exI [of _ msg]) (simp_all add: new_call_def)
qed

text \<open>
  Claim C8, evaluated where it fails. The first attempt of a call times out before any
  response has arrived; the listener destroys the request and rejects the promise with the
  timeout error. The \<open>error\<close> event of the destroyed request then reaches the error
  listener, which schedules attempt 2 after the base delay, and attempt 2 is issued.
\<close>

theorem timeout_retry_scheduled:
  "request cfg_default parse_object env_timeout ''POST'' ''/v1/perps/orders'' 1 new_call =
     \<lparr>promise = Some (Inl (TimeoutError ''Request timeout after 30000ms'')),
      attempts = [1, 2], delays = [1000]\<rparr>"
  by (simp add: request_unfold attempt_step_def env_timeout_def on_timeout_def on_req_error_def
        on_end_def parse_object_def cfg_default_def new_call_def settle_def digit_char_def)



text \<open>
  Claim C10. The key of a channel (without colon) and a qualifier is replayed as the
  original subscribe message exactly when the qualifier contains no colon; in any case the
  replayed message is the subscribe message for the part of the qualifier before its first
  colon (and carries no market at all when that part is empty).
\<close>

theorem replay_roundtrip:
  assumes "CHR '':'' \<notin> set channel"
  shows "(resubscribe_msg (getSubscriptionKey channel market) = subscribe_msg channel market
            \<longleftrightarrow> (case market of None \<Rightarrow> True | Some m \<Rightarrow> CHR '':'' \<notin> set m))
         \<and> (case market of
               None \<Rightarrow> True
             | Some m \<Rightarrow> resubscribe_msg (getSubscriptionKey channel market) =
                 subscribe_msg channel (Some (takeWhile (\<lambda>x. x \<noteq> CHR '':'') m)))"
proof (cases market)
  case None
  then show ?thesis
    using assms by (simp add: getSubscriptionKey_def resubscribe_msg_plain subscribe_msg_def truthy_def)
next
  case (Some m)
  show ?thesis
  proof (cases "m = []")
    case True
    then show ?thesis
      using assms Some by (simp add: getSubscriptionKey_def resubscribe_msg_plain subscribe_msg_def truthy_def)
  next
    case False
    have "resubscribe_msg (getSubscriptionKey channel market) =
           subscribe_msg channel (Some (takeWhile (\<lambda>x. x \<noteq> CHR '':'') m))"
      using False Some resubscribe_msg_qualified [OF assms] by (simp add: getSubscriptionKey_def)
    moreover have "subscribe_msg channel (Some (takeWhile (\<lambda>x. x \<noteq> CHR '':'') m)) = subscribe_msg channel (Some m)
       \<longleftrightarrow> CHR '':'' \<notin> set m"
    proof (cases m)
      case Nil
      with False show ?thesis by simp
    next
      case (Cons x xs)
      then show ?thesis
        using takeWhile_neq_id [of "\<lambda>x. x \<noteq> CHR '':''" m]
        by (auto simp: subscribe_msg_def truthy_def split: if_splits)
    qed
    ultimately show ?thesis using Some by simp
  qed
qed


text \<open>The theorem at the channel \<open>tradesPerps\<close>, with and without a colon in the market.\<close>

theorem replay_roundtrip_witness:
  "CHR '':'' \<notin> set ''tradesPerps''
   \<and> resubscribe_msg (getSubscriptionKey ''tradesPerps'' (Some ''BTC-USD.P'')) = subscribe_msg ''tradesPerps'' (Some ''BTC-USD.P'')
   \<and> resubscribe_msg (getSubscriptionKey ''tradesPerps'' (Some ''BTC:USD'')) = SubscribeMsg ''tradesPerps'' (Some ''BTC'')
   \<and> resubscribe_msg (getSubscriptionKey ''tradesPerps'' (Some ''BTC:USD'')) \<noteq> subscribe_msg ''tradesPerps'' (Some ''BTC:USD'')"
  using replay_roundtrip [of "''tradesPerps''" "Some ''BTC-USD.P''"]
        replay_roundtrip [of "''tradesPerps''" "Some ''BTC:USD''"]
  by (simp add: subscribe_msg_def truthy_def)

end
